theory Spec2Isabelle
  imports Complex_Main "HOL-Library.Sublist"
begin

section \<open>The aggregator script: weighted mean and standard deviation\<close>

text \<open>
  \<^verbatim>\<open>aggregator/scripts/tutorial_2_lens_models.py\<close> defines one function of its own,
  \<^verbatim>\<open>weighted_mean_and_standard_deviation\<close>, and a loop that calls it once for every
  MultiNest output. Both are embedded here. Python floats are modelled as real numbers,
  so rounding, overflow and infinities are outside the model; the one non-number that the
  code itself can produce from finite inputs, the \<^verbatim>\<open>nan\<close> that \<^verbatim>\<open>np.sqrt\<close> returns for a
  negative argument, is a value of its own.
\<close>

datatype error = ZeroDivisionError | TypeError | AttributeError

datatype npfloat = Num real | NaN

text \<open>
  The two numpy functions the helper calls. \<^verbatim>\<open>np.average(a, weights=w)\<close> on
  one-dimensional arrays raises \<^verbatim>\<open>TypeError\<close> when the shapes differ, raises
  \<^verbatim>\<open>ZeroDivisionError\<close> when the weights sum to zero (an empty array included) and
  otherwise returns \<^verbatim>\<open>sum(a * w) / sum(w)\<close>.
\<close>

definition np_average :: "real list \<Rightarrow> real list \<Rightarrow> error + real" where
  "np_average a w =
     (if length a \<noteq> length w then Inl TypeError
      else if sum_list w = 0 then Inl ZeroDivisionError
      else Inr (sum_list (map2 (*) a w) / sum_list w))"

definition np_sqrt :: "real \<Rightarrow> npfloat" where
  "np_sqrt x = (if x < 0 then NaN else Num (sqrt x))"

text \<open>
  \<^verbatim>\<open>
  def weighted_mean_and_standard_deviation(values, weights):
      values = np.asarray(values)
      weights = np.asarray(weights)
      average = np.average(values, weights=weights)
      variance = np.average((values - average) ** 2, weights=weights)
      return (average, np.sqrt(variance))
  \<close>
  On the level of values \<^verbatim>\<open>np.asarray\<close> is the identity.
\<close>

definition weighted_mean_and_standard_deviation ::
  "real list \<Rightarrow> real list \<Rightarrow> error + (real \<times> npfloat)" where
  "weighted_mean_and_standard_deviation values weights =
     (case np_average values weights of
        Inl e \<Rightarrow> Inl e
      | Inr average \<Rightarrow>
          (case np_average (map (\<lambda>x. x\<^sup>2) (map (\<lambda>v. v - average) values)) weights of
             Inl e \<Rightarrow> Inl e
           | Inr variance \<Rightarrow> Inr (average, np_sqrt variance)))"

subsection \<open>The same function on objects\<close>







subsection \<open>The loop over the MultiNest outputs\<close>

text \<open>
  \<^verbatim>\<open>
  einstein_masses = []
  einstein_mass_errors = []
  for multi_nest_output in multi_nest_outputs:
      sample_masses = []
      sample_weights = []
      for sample_index in range(multi_nest_output.total_samples):
          instance = multi_nest_output.sample_model_instance_from_sample_index(...)
          sample_masses.append(instance.galaxies.lens.einstein_mass)
          sample_weights.append(multi_nest_output.sample_weight_from_sample_index(...))
      value, error = weighted_mean_and_standard_deviation(
          values=sample_masses, weights=sample_weights)
      einstein_masses.append(value)
      einstein_mass_errors.append(value)
  \<close>
  A MultiNest output is what the loop reads of it: for every sample index below
  \<^verbatim>\<open>total_samples\<close> the Einstein mass of the sample's instance and the sample's weight.
  An exception of the helper leaves the loop, and the script, at once.
\<close>

type_synonym multi_nest_output = "(real \<times> real) list"

fun collect_samples :: "multi_nest_output \<Rightarrow> real list \<times> real list \<Rightarrow> real list \<times> real list" where
  "collect_samples [] (sample_masses, sample_weights) = (sample_masses, sample_weights)"
| "collect_samples ((mass, weight) # rest) (sample_masses, sample_weights) =
     collect_samples rest (sample_masses @ [mass], sample_weights @ [weight])"

fun einstein_mass_loop ::
  "multi_nest_output list \<Rightarrow> real list \<times> real list \<Rightarrow> error + (real list \<times> real list)" where
  "einstein_mass_loop [] (einstein_masses, einstein_mass_errors) =
     Inr (einstein_masses, einstein_mass_errors)"
| "einstein_mass_loop (multi_nest_output # rest) (einstein_masses, einstein_mass_errors) =
     (let (sample_masses, sample_weights) = collect_samples multi_nest_output ([], [])
      in case weighted_mean_and_standard_deviation sample_masses sample_weights of
           Inl e \<Rightarrow> Inl e
         | Inr (value, error) \<Rightarrow>
             einstein_mass_loop rest (einstein_masses @ [value], einstein_mass_errors @ [value]))"

definition einstein_mass_script :: "multi_nest_output list \<Rightarrow> error + (real list \<times> real list)" where
  "einstein_mass_script multi_nest_outputs = einstein_mass_loop multi_nest_outputs ([], [])"



section \<open>The pipelines\<close>

text \<open>
  Every pipeline file defines one function, \<^verbatim>\<open>make_pipeline\<close>. It extends the list of
  output folders, constructs the phases one after the other and returns a pipeline
  object holding phases. The lens-modelling library behind \<^verbatim>\<open>al\<close>, \<^verbatim>\<open>af\<close>, \<^verbatim>\<open>ph\<close> and \<^verbatim>\<open>gm\<close> is
  not part of the repository. What the embedding keeps of a phase is what
  \<^verbatim>\<open>make_pipeline\<close> itself decides: its name, the folder list it is given and, in the
  order in which they take effect, the bindings of its model: the assignments to
  attributes of a model, the keyword arguments of \<^verbatim>\<open>GalaxyModel\<close>, the entries of the
  \<^verbatim>\<open>galaxies\<close> dictionaries and the two hyper arguments of \<^verbatim>\<open>PhaseImaging\<close>. Settings of
  the data and of the optimizer (\<^verbatim>\<open>sub_size\<close>, \<^verbatim>\<open>n_live_points\<close> and the like) bind no
  parameter and are left out, and so is \<^verbatim>\<open>modify_image\<close>, which changes the image and
  not the model. A local variable that holds a model is bound under its own name, and
  its bindings are listed with the phase whose constructor receives it.
\<close>

subsection \<open>Bindings\<close>

text \<open>
  Where a bound value comes from. \<open>PhaseVar k\<close> is \<^verbatim>\<open>phasek.result\<close>, the result of
  the phase held by the variable \<^verbatim>\<open>phasek\<close>; \<open>FromPhase n\<close> is
  \<^verbatim>\<open>results.from_phase(n)\<close>, a lookup by phase name; \<open>AfLast\<close> is \<^verbatim>\<open>af.last\<close>.
\<close>

datatype source = PhaseVar nat | FromPhase string | AfLast

datatype attr = Instance | Constant | Model | Variable | ModelAbsolute real

text \<open>
  The right-hand sides that occur. \<open>Result s via a path\<close> reads the result \<open>s\<close>, steps
  through the sub-results \<open>via\<close> (\<^verbatim>\<open>hyper_combined\<close>, \<^verbatim>\<open>inversion\<close>, \<^verbatim>\<open>hyper_galaxy\<close>), takes
  the attribute \<open>a\<close> and follows \<open>path\<close> into it.
\<close>

datatype rhs =
    Result source "string list" attr string
  | GaussianPrior real real
  | ProfileClass string
  | Parameter string
  | Setup string
  | Argument string
  | Local string
  | PyNoneValue

type_synonym binding = "string \<times> rhs"

subsection \<open>Values, folder lists and phases\<close>

text \<open>
  What a caller can pass as \<^verbatim>\<open>phase_folders\<close>: \<^verbatim>\<open>None\<close> (the default), a string, a tuple
  of strings or a reference to a list object. List objects live in a store, so that two
  references to one list see each other's changes. Of the four only a list has an
  \<^verbatim>\<open>append\<close> method.
\<close>

datatype pyval = PyNone | PyStr string | PyTuple "string list" | PyListRef nat

type_synonym store = "nat \<Rightarrow> string list"

record phase =
  phase_name :: string
  phase_folders :: pyval
  bindings :: "binding list"

record pipeline =
  pipeline_name :: string
  phases :: "phase list"

record pstate =
  store :: store
  constructed :: "phase list"

definition list_append :: "pyval \<Rightarrow> string \<Rightarrow> pstate \<Rightarrow> (error + unit) \<times> pstate" where
  "list_append v s st =
     (case v of
        PyListRef r \<Rightarrow> (Inr (), st\<lparr>store := (store st)(r := store st r @ [s])\<rparr>)
      | _ \<Rightarrow> (Inl AttributeError, st))"

definition construct :: "phase \<Rightarrow> pstate \<Rightarrow> pstate" where
  "construct p st = st\<lparr>constructed := constructed st @ [p]\<rparr>"

text \<open>An exception ends the function: what follows a statement runs only if it returned.\<close>

definition then_do ::
  "(error + 'a) \<times> pstate \<Rightarrow> ('a \<Rightarrow> pstate \<Rightarrow> (error + 'b) \<times> pstate) \<Rightarrow> (error + 'b) \<times> pstate" where
  "then_do r f = (case r of (Inl e, st) \<Rightarrow> (Inl e, st) | (Inr x, st) \<Rightarrow> f x st)"

text \<open>
  Two pipeline files leave the folder list to
  \<^verbatim>\<open>path_util.phase_folders_from_phase_folders_and_pipeline_name\<close> of the library. It is
  a parameter of their models: a function of the folders, the pipeline name and the
  store that raises or returns the folders to use, with the store it leaves behind.
\<close>

type_synonym folders_helper = "pyval \<Rightarrow> string \<Rightarrow> store \<Rightarrow> (error + pyval) \<times> store"

definition call_helper ::
  "folders_helper \<Rightarrow> pyval \<Rightarrow> string \<Rightarrow> pstate \<Rightarrow> (error + pyval) \<times> pstate" where
  "call_helper helper v name st =
     (case helper v name (store st) of (r, s) \<Rightarrow> (r, st\<lparr>store := s\<rparr>))"

subsection \<open>\<^verbatim>\<open>pipelines/simple/lens_sie__source_inversion.py\<close>\<close>

text \<open>
  The arguments that decide a binding or a folder. \<open>pipeline_tag\<close> is the string that
  \<^verbatim>\<open>al.pipeline_tagging.pipeline_tag_from_pipeline_settings\<close> returns for the settings.
\<close>

record simple_inversion_args =
  include_shear :: bool
  phase_folders_arg :: pyval
  pipeline_tag :: string

definition simple_inversion_phase1 :: "simple_inversion_args \<Rightarrow> phase" where
  "simple_inversion_phase1 a =
     \<lparr>phase_name = ''phase_1__source_sersic'',
      phase_folders = phase_folders_arg a,
      bindings =
        [(''shear'', if include_shear a then ProfileClass ''ExternalShear'' else PyNoneValue),
         (''mass'', ProfileClass ''EllipticalIsothermal''),
         (''mass.centre_0'', GaussianPrior 0 0.1),
         (''mass.centre_1'', GaussianPrior 0 0.1),
         (''galaxies.lens.redshift'', Argument ''redshift_lens''),
         (''galaxies.lens.mass'', Local ''mass''),
         (''galaxies.lens.shear'', Local ''shear''),
         (''galaxies.source.redshift'', Argument ''redshift_source''),
         (''galaxies.source.light'', ProfileClass ''EllipticalSersic'')]\<rparr>"

definition simple_inversion_phase2 :: "simple_inversion_args \<Rightarrow> phase" where
  "simple_inversion_phase2 a =
     \<lparr>phase_name = ''phase_2__source_inversion_initialization'',
      phase_folders = phase_folders_arg a,
      bindings =
        [(''galaxies.lens.redshift'', Argument ''redshift_lens''),
         (''galaxies.lens.mass'', Result (PhaseVar 1) [] Instance ''galaxies.lens.mass''),
         (''galaxies.lens.shear'', Result (PhaseVar 1) [] Instance ''galaxies.lens.shear''),
         (''galaxies.source.redshift'', Argument ''redshift_source''),
         (''galaxies.source.pixelization'', Argument ''pixelization''),
         (''galaxies.source.regularization'', Argument ''regularization'')]\<rparr>"

definition simple_inversion_phase3 :: "simple_inversion_args \<Rightarrow> phase" where
  "simple_inversion_phase3 a =
     \<lparr>phase_name = ''phase_3__inversion'',
      phase_folders = phase_folders_arg a,
      bindings =
        [(''galaxies.lens.redshift'', Argument ''redshift_lens''),
         (''galaxies.lens.mass'', Result (PhaseVar 1) [] Model ''galaxies.lens.mass''),
         (''galaxies.lens.shear'', Result (PhaseVar 1) [] Model ''galaxies.lens.shear''),
         (''galaxies.source.redshift'', Argument ''redshift_source''),
         (''galaxies.source.pixelization'',
            Result (PhaseVar 2) [] Model ''galaxies.source.pixelization''),
         (''galaxies.source.regularization'',
            Result (PhaseVar 2) [] Model ''galaxies.source.regularization'')]\<rparr>"


subsection \<open>\<^verbatim>\<open>pipelines/with_lens_light/inversion/from_initialize/lens_sersic_sie_shear_source_inversion.py\<close>\<close>

text \<open>
  \<open>tagged_name\<close> is the string that \<^verbatim>\<open>tag.pipeline_name_from_name_and_settings\<close> returns
  for the pipeline name and the setting \<^verbatim>\<open>fix_lens_light\<close>. The three phases are given
  the same constructor arguments and differ in their \<^verbatim>\<open>pass_priors\<close>, whose assignments
  follow the constructor's bindings.
\<close>

record inversion_args =
  pl_fix_lens_light :: bool
  inv_phase_folders_arg :: pyval
  inv_tagged_name :: string
  inv_folders_helper :: folders_helper

definition inversion_constructor_bindings :: "binding list" where
  "inversion_constructor_bindings =
     [(''lens_galaxies.lens.redshift'', Argument ''redshift_lens''),
      (''lens_galaxies.lens.light'', ProfileClass ''EllipticalSersic''),
      (''lens_galaxies.lens.mass'', ProfileClass ''EllipticalIsothermal''),
      (''lens_galaxies.lens.shear'', ProfileClass ''ExternalShear''),
      (''source_galaxies.source.redshift'', Argument ''redshift_source''),
      (''source_galaxies.source.pixelization'', ProfileClass ''AdaptiveMagnification''),
      (''source_galaxies.source.regularization'', ProfileClass ''Constant'')]"

definition inversion_phase1 :: "inversion_args \<Rightarrow> pyval \<Rightarrow> phase" where
  "inversion_phase1 a folders =
     \<lparr>phase_name = ''phase_1_initialize_inversion'',
      phase_folders = folders,
      bindings = inversion_constructor_bindings @
        [(''self.lens_galaxies.lens'',
            Result (FromPhase ''phase_3_lens_sersic_sie_shear_source_sersic'') [] Constant
              ''lens_galaxies.lens'')]\<rparr>"

definition inversion_phase2 :: "inversion_args \<Rightarrow> pyval \<Rightarrow> phase" where
  "inversion_phase2 a folders =
     \<lparr>phase_name = ''phase_2_lens_sersic_sie_shear_source_inversion'',
      phase_folders = folders,
      bindings = inversion_constructor_bindings @
        [(''self.lens_galaxies.lens'',
            Result (FromPhase ''phase_3_lens_sersic_sie_shear_source_sersic'') [] Variable
              ''lens_galaxies.lens'')] @
        (if pl_fix_lens_light a
         then [(''self.lens_galaxies.lens.light'',
                  Result (FromPhase ''phase_3_lens_sersic_sie_shear_source_sersic'') [] Constant
                    ''lens_galaxies.lens.light'')]
         else []) @
        [(''self.source_galaxies.source.pixelization'',
            Result (FromPhase ''phase_1_initialize_inversion'') [] Constant
              ''source_galaxies.source.pixelization''),
         (''self.source_galaxies.source.regularization'',
            Result (FromPhase ''phase_1_initialize_inversion'') [] Variable
              ''source_galaxies.source.regularization'')]\<rparr>"

definition inversion_phase3 :: "inversion_args \<Rightarrow> pyval \<Rightarrow> phase" where
  "inversion_phase3 a folders =
     \<lparr>phase_name = ''phase_3_lens_sersic_sie_shear_refine_source_inversion'',
      phase_folders = folders,
      bindings = inversion_constructor_bindings @
        [(''self.lens_galaxies.lens'',
            Result (FromPhase ''phase_2_lens_sersic_sie_shear_source_inversion'') [] Constant
              ''lens_galaxies.lens''),
         (''self.source_galaxies.source'',
            Result (FromPhase ''phase_2_lens_sersic_sie_shear_source_inversion'') [] Variable
              ''source_galaxies.source'')]\<rparr>"

text \<open>
  \<^verbatim>\<open>
  pipeline_name = 'pipeline_inv__lens_sersic_sie_shear_source_inversion'
  pipeline_name = tag.pipeline_name_from_name_and_settings(
      pipeline_name=pipeline_name, fix_lens_light=pl_fix_lens_light)
  phase_folders = path_util.phase_folders_from_phase_folders_and_pipeline_name(
      phase_folders=phase_folders, pipeline_name=pipeline_name)
  ...
  phase1 = InversionPhase(phase_name='phase_1_initialize_inversion', ...)
  phase2 = InversionPhase(phase_name='phase_2_lens_sersic_sie_shear_source_inversion', ...)
  phase3 = InversionPhase(
      phase_name='phase_3_lens_sersic_sie_shear_refine_source_inversion', ...)
  return pipeline.PipelineImaging(pipeline_name, phase1, phase2)
  \<close>
\<close>

definition make_pipeline_inversion ::
  "inversion_args \<Rightarrow> pstate \<Rightarrow> (error + pipeline) \<times> pstate" where
  "make_pipeline_inversion a st0 =
     (let name = inv_tagged_name a in
      then_do (call_helper (inv_folders_helper a) (inv_phase_folders_arg a) name st0)
        (\<lambda>folders st1.
          let phase1 = inversion_phase1 a folders;
              st2 = construct phase1 st1;
              phase2 = inversion_phase2 a folders;
              st3 = construct phase2 st2;
              phase3 = inversion_phase3 a folders;
              st4 = construct phase3 st3
          in (Inr \<lparr>pipeline_name = name, phases = [phase1, phase2]\<rparr>, st4)))"

subsection \<open>\<^verbatim>\<open>pipelines/simple/lens_sersic_sie_shear_source_sersic.py\<close>\<close>

text \<open>
  \<open>sersic_tagged_name\<close> is the string that \<^verbatim>\<open>tag.pipeline_name_from_name_and_settings\<close>
  returns for the pipeline name. Each phase is an instance of a class of its own, whose
  \<^verbatim>\<open>pass_priors\<close> assigns after the constructor has bound the profile classes.
\<close>

record sersic_args =
  sersic_phase_folders_arg :: pyval
  sersic_tagged_name :: string
  sersic_folders_helper :: folders_helper

definition sersic_phase1 :: "pyval \<Rightarrow> phase" where
  "sersic_phase1 folders =
     \<lparr>phase_name = ''phase_1_lens_sersic'',
      phase_folders = folders,
      bindings =
        [(''lens_galaxies.lens.redshift'', Argument ''redshift_lens''),
         (''lens_galaxies.lens.light'', ProfileClass ''EllipticalSersic''),
         (''self.lens_galaxies.lens.light.centre_0'', GaussianPrior 0 0.1),
         (''self.lens_galaxies.lens.light.centre_1'', GaussianPrior 0 0.1)]\<rparr>"

definition sersic_phase2 :: "pyval \<Rightarrow> phase" where
  "sersic_phase2 folders =
     \<lparr>phase_name = ''phase_2_lens_sie_shear_source_sersic'',
      phase_folders = folders,
      bindings =
        [(''lens_galaxies.lens.redshift'', Argument ''redshift_lens''),
         (''lens_galaxies.lens.mass'', ProfileClass ''EllipticalIsothermal''),
         (''lens_galaxies.lens.shear'', ProfileClass ''ExternalShear''),
         (''source_galaxies.source.redshift'', Argument ''redshift_source''),
         (''source_galaxies.source.light'', ProfileClass ''EllipticalSersic''),
         (''self.lens_galaxies.lens.mass.centre_0'',
            Result (FromPhase ''phase_1_lens_sersic'') [] Variable
              ''lens_galaxies.lens.light.centre_0''),
         (''self.lens_galaxies.lens.mass.centre_1'',
            Result (FromPhase ''phase_1_lens_sersic'') [] Variable
              ''lens_galaxies.lens.light.centre_1'')]\<rparr>"

definition sersic_phase3 :: "pyval \<Rightarrow> phase" where
  "sersic_phase3 folders =
     \<lparr>phase_name = ''phase_3_lens_sersic_sie_shear_source_sersic'',
      phase_folders = folders,
      bindings =
        [(''lens_galaxies.lens.redshift'', Argument ''redshift_lens''),
         (''lens_galaxies.lens.light'', ProfileClass ''EllipticalSersic''),
         (''lens_galaxies.lens.mass'', ProfileClass ''EllipticalIsothermal''),
         (''lens_galaxies.lens.shear'', ProfileClass ''ExternalShear''),
         (''source_galaxies.source.redshift'', Argument ''redshift_source''),
         (''source_galaxies.source.light'', ProfileClass ''EllipticalSersic''),
         (''self.lens_galaxies.lens.light'',
            Result (FromPhase ''phase_1_lens_sersic'') [] Variable ''lens_galaxies.lens.light''),
         (''self.lens_galaxies.lens.mass'',
            Result (FromPhase ''phase_2_lens_sie_shear_source_sersic'') [] Variable
              ''lens_galaxies.lens.mass''),
         (''self.lens_galaxies.lens.shear'',
            Result (FromPhase ''phase_2_lens_sie_shear_source_sersic'') [] Variable
              ''lens_galaxies.lens.shear''),
         (''self.source_galaxies.source'',
            Result (FromPhase ''phase_2_lens_sie_shear_source_sersic'') [] Variable
              ''source_galaxies.source'')]\<rparr>"


subsection \<open>\<^verbatim>\<open>pipelines/hyper/with_lens_light/sersic/inversion/from_initialize/lens_sersic_sie_shear_source_inversion.py\<close>\<close>

text \<open>
  Here the tags are part of the name: \<open>hyper_tagged_name\<close> is the string that
  \<^verbatim>\<open>tag.pipeline_name_from_name_and_settings\<close> returns for the pipeline name and the
  settings, and it alone is appended to the folders.
\<close>

record hyper_args =
  hyper_fix_lens_light :: bool
  pl_hyper_galaxies :: bool
  hyper_phase_folders_arg :: pyval
  hyper_tagged_name :: string

definition hyper_constructor_bindings :: "binding list" where
  "hyper_constructor_bindings =
     [(''lens_galaxies.lens.redshift'', Argument ''redshift_lens''),
      (''lens_galaxies.lens.light'', ProfileClass ''EllipticalSersic''),
      (''lens_galaxies.lens.mass'', ProfileClass ''EllipticalIsothermal''),
      (''lens_galaxies.lens.shear'', ProfileClass ''ExternalShear''),
      (''source_galaxies.source.redshift'', Argument ''redshift_source''),
      (''source_galaxies.source.pixelization'', Argument ''pl_pixelization''),
      (''source_galaxies.source.regularization'', Argument ''pl_regularization'')]"

definition hyper_galaxy_bindings :: "string \<Rightarrow> binding list" where
  "hyper_galaxy_bindings from =
     [(''self.lens_galaxies.lens.hyper_galaxy'',
         Result (FromPhase from) [''hyper_galaxy''] Constant ''lens_galaxies.lens.hyper_galaxy''),
      (''self.source_galaxies.source.hyper_galaxy'',
         Result (FromPhase from) [''hyper_galaxy''] Constant
           ''source_galaxies.source.hyper_galaxy'')]"

definition hyper_phase1 :: "hyper_args \<Rightarrow> phase" where
  "hyper_phase1 a =
     \<lparr>phase_name = ''phase_1_initialize_inversion'',
      phase_folders = hyper_phase_folders_arg a,
      bindings = hyper_constructor_bindings @
        [(''self.lens_galaxies.lens'',
            Result (FromPhase ''phase_3_lens_sersic_sie_shear_source_sersic'') [] Constant
              ''lens_galaxies.lens'')] @
        (if pl_hyper_galaxies a
         then hyper_galaxy_bindings ''phase_3_lens_sersic_sie_shear_source_sersic''
         else [])\<rparr>"

definition hyper_phase2 :: "hyper_args \<Rightarrow> phase" where
  "hyper_phase2 a =
     \<lparr>phase_name = ''phase_2_lens_sersic_sie_shear_source_inversion'',
      phase_folders = hyper_phase_folders_arg a,
      bindings = hyper_constructor_bindings @
        [(''self.lens_galaxies.lens'',
            Result (FromPhase ''phase_3_lens_sersic_sie_shear_source_sersic'') [] Variable
              ''lens_galaxies.lens'')] @
        (if hyper_fix_lens_light a
         then [(''self.lens_galaxies.lens.light'',
                  Result (FromPhase ''phase_3_lens_sersic_sie_shear_source_sersic'') [] Constant
                    ''lens_galaxies.lens.light'')]
         else []) @
        [(''self.source_galaxies.source'',
            Result (FromPhase ''phase_1_initialize_inversion'') [''inversion''] Constant
              ''source_galaxies.source'')] @
        (if pl_hyper_galaxies a
         then hyper_galaxy_bindings ''phase_1_initialize_inversion''
         else [])\<rparr>"


subsection \<open>The setup object of the advanced pipelines\<close>

text \<open>
  The two advanced pipelines take a \<^verbatim>\<open>setup\<close> object of the library. Its fields here are
  the attributes that the two functions read; \<open>light_tag\<close> is \<^verbatim>\<open>setup.light.tag\<close> as it
  is after \<^verbatim>\<open>setup.set_light_type(light_type="gaussians")\<close>.
\<close>

record pipeline_setup =
  general_tag :: string
  general_hyper_galaxies :: bool
  source_tag :: string
  source_tag_no_inversion :: string
  source_no_shear :: bool
  source_lens_light_centre :: "(real \<times> real) option"
  source_lens_light_bulge_only :: bool
  source_align_light_mass_centre :: bool
  source_lens_mass_centre :: "(real \<times> real) option"
  light_tag :: string
  light_disk_as_sersic :: bool
  light_align_bulge_disk_centre :: bool
  light_align_bulge_disk_axis_ratio :: bool
  light_align_bulge_disk_phi :: bool

subsection \<open>\<^verbatim>\<open>pipelines/advanced/with_lens_light/source/parametric/lens_bulge_disk_sie__source_sersic.py\<close>\<close>

text \<open>The lens of phases 1 and 3 is built in a local variable and adjusted by the setup.\<close>

definition bulge_disk_lens_adjustments :: "pipeline_setup \<Rightarrow> binding list" where
  "bulge_disk_lens_adjustments s =
     [(''lens.bulge.centre'', Parameter ''lens.disk.centre'')] @
     (if source_lens_light_centre s \<noteq> None
      then [(''lens.bulge.centre'', Setup ''source.lens_light_centre''),
            (''lens.disk.centre'', Setup ''source.lens_light_centre'')]
      else []) @
     (if source_lens_light_bulge_only s then [(''lens.disk'', PyNoneValue)] else [])"

definition hyper_combined_bindings :: "nat \<Rightarrow> binding list" where
  "hyper_combined_bindings k =
     [(''galaxies.source.hyper_galaxy'',
         Result (PhaseVar k) [''hyper_combined''] Instance
           ''optional.galaxies.source.hyper_galaxy''),
      (''hyper_image_sky'',
         Result (PhaseVar k) [''hyper_combined''] Instance ''optional.hyper_image_sky''),
      (''hyper_background_noise'',
         Result (PhaseVar k) [''hyper_combined''] Instance ''optional.hyper_background_noise'')]"

definition bulge_disk_phase1 :: "pipeline_setup \<Rightarrow> pyval \<Rightarrow> phase" where
  "bulge_disk_phase1 s folders =
     \<lparr>phase_name = ''phase_1__lens_bulge_disk'',
      phase_folders = folders,
      bindings =
        [(''lens.redshift'', Argument ''redshift_lens''),
         (''lens.bulge'', ProfileClass ''EllipticalSersic''),
         (''lens.disk'', ProfileClass ''EllipticalExponential'')] @
        bulge_disk_lens_adjustments s @
        [(''galaxies.lens'', Local ''lens'')]\<rparr>"

definition bulge_disk_phase2 :: "pipeline_setup \<Rightarrow> pyval \<Rightarrow> phase" where
  "bulge_disk_phase2 s folders =
     \<lparr>phase_name = ''phase_2__lens_sie__source_sersic'',
      phase_folders = folders,
      bindings =
        [(''shear'', if \<not> source_no_shear s then ProfileClass ''ExternalShear'' else PyNoneValue),
         (''mass'', ProfileClass ''EllipticalIsothermal''),
         (''mass.centre'',
            if source_align_light_mass_centre s
            then Result (PhaseVar 1) [] Instance ''galaxies.lens.bulge.centre''
            else Result (PhaseVar 1) [] (ModelAbsolute 0.1) ''galaxies.lens.bulge.centre'')] @
        (if source_lens_mass_centre s \<noteq> None
         then [(''mass.centre'', Setup ''source.lens_mass_centre'')]
         else []) @
        [(''galaxies.lens.redshift'', Argument ''redshift_lens''),
         (''galaxies.lens.bulge'', Result (PhaseVar 1) [] Instance ''galaxies.lens.bulge''),
         (''galaxies.lens.disk'', Result (PhaseVar 1) [] Instance ''galaxies.lens.disk''),
         (''galaxies.lens.mass'', Local ''mass''),
         (''galaxies.lens.shear'', Local ''shear''),
         (''galaxies.lens.hyper_galaxy'',
            Result (PhaseVar 1) [''hyper_combined''] Instance
              ''optional.galaxies.lens.hyper_galaxy''),
         (''galaxies.source.redshift'', Argument ''redshift_source''),
         (''galaxies.source.light'', ProfileClass ''EllipticalSersic'')] @
        hyper_combined_bindings 1\<rparr>"

definition bulge_disk_phase3 :: "pipeline_setup \<Rightarrow> pyval \<Rightarrow> phase" where
  "bulge_disk_phase3 s folders =
     \<lparr>phase_name = ''phase_3__lens_bulge_disk_sie__source_fixed'',
      phase_folders = folders,
      bindings =
        [(''lens.redshift'', Argument ''redshift_lens''),
         (''lens.bulge'', ProfileClass ''EllipticalSersic''),
         (''lens.disk'', ProfileClass ''EllipticalExponential''),
         (''lens.mass'', Result (PhaseVar 2) [] Instance ''galaxies.lens.mass''),
         (''lens.shear'', Result (PhaseVar 2) [] Instance ''galaxies.lens.shear''),
         (''lens.hyper_galaxy'',
            Result (PhaseVar 2) [''hyper_combined''] Instance
              ''optional.galaxies.lens.hyper_galaxy'')] @
        bulge_disk_lens_adjustments s @
        [(''galaxies.lens'', Local ''lens''),
         (''galaxies.source.redshift'', Argument ''redshift_source''),
         (''galaxies.source.light'', Result (PhaseVar 2) [] Instance ''galaxies.source.light'')] @
        hyper_combined_bindings 2\<rparr>"

definition bulge_disk_phase4 :: "pipeline_setup \<Rightarrow> pyval \<Rightarrow> phase" where
  "bulge_disk_phase4 s folders =
     \<lparr>phase_name = ''phase_4__lens_bulge_disk_sie__source_sersic'',
      phase_folders = folders,
      bindings =
        [(''galaxies.lens.redshift'', Argument ''redshift_lens''),
         (''galaxies.lens.bulge'', Result (PhaseVar 3) [] Model ''galaxies.lens.bulge''),
         (''galaxies.lens.disk'', Result (PhaseVar 3) [] Model ''galaxies.lens.disk''),
         (''galaxies.lens.mass'', Result (PhaseVar 2) [] Model ''galaxies.lens.mass''),
         (''galaxies.lens.shear'', Result (PhaseVar 2) [] Model ''galaxies.lens.shear''),
         (''galaxies.lens.hyper_galaxy'',
            Result (PhaseVar 3) [''hyper_combined''] Instance
              ''optional.galaxies.lens.hyper_galaxy''),
         (''galaxies.source.redshift'', Argument ''redshift_source''),
         (''galaxies.source.light'', Result (PhaseVar 2) [] Model ''galaxies.source.light'')] @
        hyper_combined_bindings 3\<rparr>"

text \<open>
  \<^verbatim>\<open>
  pipeline_name = "pipeline_source__parametric__bulge_disk"
  phase_folders.append(pipeline_name)
  phase_folders.append(setup.general.tag)
  phase_folders.append(setup.source.tag_no_inversion)
  ...
  return al.PipelineDataset(pipeline_name, phase1, phase2, phase3, phase4)
  \<close>
  Each phase is replaced by its extension with hyper phases before the next is built.
\<close>

record bulge_disk_args =
  bd_setup :: pipeline_setup
  bd_phase_folders_arg :: pyval


subsection \<open>\<^verbatim>\<open>pipelines/advanced/with_lens_light/light/gaussians/lens_gaussians_sie__source.py\<close>\<close>

definition gaussians_phase1 :: "pipeline_setup \<Rightarrow> pyval \<Rightarrow> phase" where
  "gaussians_phase1 s folders =
     \<lparr>phase_name = ''phase_1__lens_bulge_disk_sie__source'',
      phase_folders = folders,
      bindings =
        (if general_hyper_galaxies s
         then [(''hyper_galaxy'',
                  Result AfLast [''hyper_combined''] Instance ''galaxies.lens.hyper_galaxy''),
               (''hyper_galaxy.noise_factor'',
                  Result AfLast [''hyper_combined''] Model
                    ''galaxies.lens.hyper_galaxy.noise_factor'')]
         else [(''hyper_galaxy'', PyNoneValue)]) @
        [(''disk'',
            if light_disk_as_sersic s then ProfileClass ''EllipticalSersic''
            else ProfileClass ''EllipticalExponential''),
         (''lens.redshift'', Argument ''redshift_lens''),
         (''lens.bulge'', ProfileClass ''EllipticalSersic''),
         (''lens.disk'', Local ''disk''),
         (''lens.mass'', Result AfLast [] Instance ''galaxies.lens.mass''),
         (''lens.shear'', Result AfLast [] Instance ''galaxies.lens.shear''),
         (''lens.hyper_galaxy'', Local ''hyper_galaxy'')] @
        (if light_align_bulge_disk_centre s
         then [(''lens.bulge.centre'', Parameter ''lens.disk.centre'')] else []) @
        (if light_align_bulge_disk_axis_ratio s
         then [(''lens.bulge.axis_ratio'', Parameter ''lens.disk.axis_ratio'')] else []) @
        (if light_align_bulge_disk_phi s
         then [(''lens.bulge.phi'', Parameter ''lens.disk.phi'')] else []) @
        [(''galaxies.lens'', Local ''lens''),
         (''galaxies.source'', Result AfLast [] Instance ''galaxies.source''),
         (''hyper_image_sky'',
            Result AfLast [''hyper_combined''] Instance ''optional.hyper_image_sky''),
         (''hyper_background_noise'',
            Result AfLast [''hyper_combined''] Instance ''optional.hyper_background_noise'')]\<rparr>"

text \<open>
  \<^verbatim>\<open>
  pipeline_name = "pipeline_light__gaussians"
  setup.set_light_type(light_type="gaussians")
  phase_folders.append(pipeline_name)
  phase_folders.append(setup.general.tag)
  phase_folders.append(setup.source.tag)
  phase_folders.append(setup.light.tag)
  ...
  return al.PipelineDataset(pipeline_name, phase1)
  \<close>
\<close>

record gaussians_args =
  g_setup :: pipeline_setup
  g_phase_folders_arg :: pyval


subsection \<open>What a call leaves behind\<close>

text \<open>
  The phases a call returns in its pipeline (none when it raises) and the phases it has
  constructed, in the order of construction.
\<close>

definition returned_phases :: "(error + pipeline) \<times> pstate \<Rightarrow> phase list" where
  "returned_phases out = (case fst out of Inl e \<Rightarrow> [] | Inr p \<Rightarrow> phases p)"

definition constructed_phases :: "(error + pipeline) \<times> pstate \<Rightarrow> phase list" where
  "constructed_phases out = constructed (snd out)"

fun sources :: "binding list \<Rightarrow> source list" where
  "sources [] = []"
| "sources ((target, Result s via a path) # bs) = s # sources bs"
| "sources (b # bs) = sources bs"

subsection \<open>The order of prior passing\<close>




text \<open>
  The chain as the code keeps it: \<^verbatim>\<open>results.from_phase\<close> never names the phase itself or
  a phase constructed after it, so that it names an earlier phase of the pipeline or a
  phase of another pipeline; and the phases passed to the pipeline are phases
  constructed, in the order of construction, though not necessarily all of them.
\<close>

fun reads_earlier :: "string list \<Rightarrow> string list \<Rightarrow> source \<Rightarrow> bool" where
  "reads_earlier earlier later (PhaseVar k) = (1 \<le> k \<and> k \<le> length earlier)"
| "reads_earlier earlier later (FromPhase n) = (n \<notin> set later)"
| "reads_earlier earlier later AfLast = True"

fun chain :: "phase list \<Rightarrow> phase list \<Rightarrow> bool" where
  "chain earlier [] = True"
| "chain earlier (p # ps) =
     (list_all (reads_earlier (map phase_name earlier) (map phase_name (p # ps)))
        (sources (bindings p))
      \<and> chain (earlier @ [p]) ps)"


subsection \<open>The forms of a binding\<close>




subsection \<open>Concrete calls\<close>

text \<open>
  A store in which the list at address \<open>0\<close> is the folder list of the runner,
  \<^verbatim>\<open>[data_type, data_name]\<close>, and no phase has been constructed; a folders helper that
  appends the name to the list it is given and returns that list; and arguments for
  each \<^verbatim>\<open>make_pipeline\<close>.
\<close>

definition runner_state :: pstate where
  "runner_state =
     \<lparr>store = (\<lambda>r. if r = 0 then [''example'', ''lens_sie__source_sersic''] else []),
      constructed = []\<rparr>"

definition appending_helper :: folders_helper where
  "appending_helper v name s =
     (case v of
        PyListRef r \<Rightarrow> (Inr v, s(r := s r @ [name]))
      | _ \<Rightarrow> (Inl AttributeError, s))"

definition simple_inversion_call :: simple_inversion_args where
  "simple_inversion_call =
     \<lparr>include_shear = True, phase_folders_arg = PyListRef 0,
      pipeline_tag = ''pipeline_tag__with_shear''\<rparr>"

definition simple_inversion_default_call :: simple_inversion_args where
  "simple_inversion_default_call =
     \<lparr>include_shear = True, phase_folders_arg = PyNone,
      pipeline_tag = ''pipeline_tag__with_shear''\<rparr>"

definition sersic_call :: sersic_args where
  "sersic_call =
     \<lparr>sersic_phase_folders_arg = PyListRef 0,
      sersic_tagged_name = ''pl__lens_sersic_sie_shear_source_x1_sersic'',
      sersic_folders_helper = appending_helper\<rparr>"

definition inversion_call :: inversion_args where
  "inversion_call =
     \<lparr>pl_fix_lens_light = False, inv_phase_folders_arg = PyListRef 0,
      inv_tagged_name = ''pipeline_inv__lens_sersic_sie_shear_source_inversion'',
      inv_folders_helper = appending_helper\<rparr>"

definition hyper_call :: hyper_args where
  "hyper_call =
     \<lparr>hyper_fix_lens_light = False, pl_hyper_galaxies = True,
      hyper_phase_folders_arg = PyListRef 0,
      hyper_tagged_name = ''pipeline_inv__lens_sersic_sie_shear_source_inversion''\<rparr>"

definition setup_call :: pipeline_setup where
  "setup_call =
     \<lparr>general_tag = ''general'', general_hyper_galaxies = True,
      source_tag = ''source'', source_tag_no_inversion = ''source__no_inversion'',
      source_no_shear = False, source_lens_light_centre = None,
      source_lens_light_bulge_only = False, source_align_light_mass_centre = False,
      source_lens_mass_centre = None, light_tag = ''light__gaussians'',
      light_disk_as_sersic = False, light_align_bulge_disk_centre = True,
      light_align_bulge_disk_axis_ratio = False, light_align_bulge_disk_phi = False\<rparr>"

definition bulge_disk_call :: bulge_disk_args where
  "bulge_disk_call = \<lparr>bd_setup = setup_call, bd_phase_folders_arg = PyListRef 0\<rparr>"

definition gaussians_call :: gaussians_args where
  "gaussians_call = \<lparr>g_setup = setup_call, g_phase_folders_arg = PyListRef 0\<rparr>"

section \<open>Properties of the weighted statistics\<close>

subsection \<open>Sums over lists\<close>





subsection \<open>The average\<close>





subsection \<open>Objects\<close>



subsection \<open>The loop\<close>

lemma collect_samples_eq:
  "collect_samples out (a, b) = (a @ map fst out, b @ map snd out)"
  by (induction out arbitrary: a b) auto

lemma einstein_mass_loop_inv:
  "einstein_mass_loop outs (ms0, es0) = Inr (ms, es) \<Longrightarrow> es0 = ms0 \<Longrightarrow>
   es = ms \<and> length ms = length ms0 + length outs \<and> take (length ms0) ms = ms0 \<and>
   (\<forall>i<length outs. \<exists>sd.
      weighted_mean_and_standard_deviation (map fst (outs ! i)) (map snd (outs ! i))
        = Inr (ms ! (length ms0 + i), sd))"
proof (induction outs arbitrary: ms0 es0)
  case Nil
  then show ?case by auto
next
  case (Cons out outs)
  from Cons.prems obtain val sd where
    v: "weighted_mean_and_standard_deviation (map fst out) (map snd out) = Inr (val, sd)"
    and rest: "einstein_mass_loop outs (ms0 @ [val], es0 @ [val]) = Inr (ms, es)"
    by (auto simp: collect_samples_eq split: sum.splits)
  have ih: "es = ms \<and> length ms = length (ms0 @ [val]) + length outs \<and>
      take (length (ms0 @ [val])) ms = ms0 @ [val] \<and>
      (\<forall>i<length outs. \<exists>sd.
         weighted_mean_and_standard_deviation (map fst (outs ! i)) (map snd (outs ! i))
           = Inr (ms ! (length (ms0 @ [val]) + i), sd))"
    using Cons.IH [OF rest] Cons.prems(2) by simp
  have t: "take (Suc (length ms0)) ms = ms0 @ [val]" using ih by simp
  have t0: "take (length ms0) ms = ms0"
    using arg_cong [OF t, of "take (length ms0)"] by (simp add: min_def)
  have n0: "ms ! length ms0 = val"
    using arg_cong [OF t, of "\<lambda>xs. xs ! length ms0"] by simp
  show ?case
  proof (intro conjI allI impI)
    fix i assume "i < length (out # outs)"
    then show "\<exists>sd. weighted_mean_and_standard_deviation
          (map fst ((out # outs) ! i)) (map snd ((out # outs) ! i))
        = Inr (ms ! (length ms0 + i), sd)"
      using v n0 ih by (cases i) auto
  qed (use ih t0 in auto)
qed

subsection \<open>Range of the mean, sign of the deviation\<close>




subsection \<open>The textbook formulas\<close>



subsection \<open>When the helper returns\<close>



subsection \<open>The list of errors\<close>

text \<open>
  C3: when the loop over the MultiNest outputs has finished, \<^verbatim>\<open>einstein_mass_errors\<close> is
  the same list as \<^verbatim>\<open>einstein_masses\<close>, with one entry for every output, and that entry
  is the weighted mean of the output's samples: the deviation the helper returned with
  it is stored nowhere.
\<close>

theorem einstein_mass_errors_are_the_means:
  assumes "einstein_mass_script multi_nest_outputs = Inr (einstein_masses, einstein_mass_errors)"
  shows "einstein_mass_errors = einstein_masses
       \<and> length einstein_masses = length multi_nest_outputs
       \<and> (\<forall>i<length multi_nest_outputs. \<exists>sd.
            weighted_mean_and_standard_deviation
              (map fst (multi_nest_outputs ! i)) (map snd (multi_nest_outputs ! i))
            = Inr (einstein_mass_errors ! i, sd))"
  using einstein_mass_loop_inv [of multi_nest_outputs "[]" "[]" einstein_masses einstein_mass_errors]
    assms
  by (simp add: einstein_mass_script_def)

theorem einstein_mass_errors_are_the_means_witness:
  "einstein_mass_script [[(1, 1), (3, 1)]] = Inr ([2], [2])
   \<and> weighted_mean_and_standard_deviation [1, 3] [1, 1] = Inr (2, Num 1)"
  using einstein_mass_errors_are_the_means [of "[[(1, 1), (3, 1)]]" "[2]" "[2]"]
  by (simp add: einstein_mass_script_def weighted_mean_and_standard_deviation_def
      np_average_def np_sqrt_def)

section \<open>Properties of the pipelines\<close>

lemmas run_defs = then_do_def list_append_def construct_def call_helper_def
  returned_phases_def constructed_phases_def Let_def

lemmas phase_defs =
  simple_inversion_phase1_def simple_inversion_phase2_def simple_inversion_phase3_def
  inversion_phase1_def inversion_phase2_def inversion_phase3_def
  inversion_constructor_bindings_def
  sersic_phase1_def sersic_phase2_def sersic_phase3_def
  hyper_phase1_def hyper_phase2_def hyper_constructor_bindings_def hyper_galaxy_bindings_def
  bulge_disk_phase1_def bulge_disk_phase2_def bulge_disk_phase3_def bulge_disk_phase4_def
  bulge_disk_lens_adjustments_def hyper_combined_bindings_def gaussians_phase1_def

lemmas call_defs = runner_state_def appending_helper_def simple_inversion_call_def
  simple_inversion_default_call_def sersic_call_def inversion_call_def hyper_call_def
  setup_call_def bulge_disk_call_def gaussians_call_def

subsection \<open>What each call does to the folders and which phases it builds\<close>






lemma inversion_returns:
  "fst (make_pipeline_inversion a st) = Inr p \<Longrightarrow>
   \<exists>folders s.
     inv_folders_helper a (inv_phase_folders_arg a) (inv_tagged_name a) (store st)
       = (Inr folders, s)
     \<and> p = \<lparr>pipeline_name = inv_tagged_name a,
            phases = [inversion_phase1 a folders, inversion_phase2 a folders]\<rparr>
     \<and> snd (make_pipeline_inversion a st) =
         \<lparr>store = s, constructed = constructed st @
            [inversion_phase1 a folders, inversion_phase2 a folders,
             inversion_phase3 a folders]\<rparr>"
  by (cases "inv_folders_helper a (inv_phase_folders_arg a) (inv_tagged_name a) (store st)";
      cases "fst (inv_folders_helper a (inv_phase_folders_arg a) (inv_tagged_name a) (store st))")
     (auto simp: make_pipeline_inversion_def run_defs)

subsection \<open>The order of prior passing, file by file\<close>







text \<open>
  The predicate is not satisfied by every list of phases: built in the other order, the
  second phase of the Sersic pipeline would read a phase that does not exist yet.
\<close>

lemma chain_rejects_later_read: "\<not> chain [] [sersic_phase2 folders, sersic_phase1 folders]"
  by (simp add: phase_defs)

subsection \<open>The forms of the bindings, file by file\<close>







subsection \<open>The prior-passing chain\<close>




subsection \<open>The forms of prior passing\<close>




subsection \<open>The phase that is built and not returned\<close>

text \<open>
  C6: whenever \<^verbatim>\<open>make_pipeline\<close> of
  \<^verbatim>\<open>with_lens_light/inversion/from_initialize/lens_sersic_sie_shear_source_inversion.py\<close>
  returns, the pipeline holds exactly two phases, \<^verbatim>\<open>phase1\<close> and \<^verbatim>\<open>phase2\<close>; a third,
  \<^verbatim>\<open>phase_3_lens_sersic_sie_shear_refine_source_inversion\<close>, has been constructed after
  them and is not in the pipeline.
\<close>

theorem inversion_pipeline_drops_third_phase:
  assumes "constructed st = []" "fst (make_pipeline_inversion a st) = Inr p"
  shows "map phase_name (phases p)
           = [''phase_1_initialize_inversion'',
              ''phase_2_lens_sersic_sie_shear_source_inversion'']
       \<and> map phase_name (constructed (snd (make_pipeline_inversion a st)))
           = [''phase_1_initialize_inversion'',
              ''phase_2_lens_sersic_sie_shear_source_inversion'',
              ''phase_3_lens_sersic_sie_shear_refine_source_inversion'']
       \<and> phases p = take 2 (constructed (snd (make_pipeline_inversion a st)))
       \<and> ''phase_3_lens_sersic_sie_shear_refine_source_inversion''
           \<notin> set (map phase_name (phases p))"
  using inversion_returns [OF assms(2)] assms(1)
  by (auto simp: inversion_phase1_def inversion_phase2_def inversion_phase3_def)

theorem inversion_pipeline_drops_third_phase_witness:
  "constructed runner_state = []
   \<and> map phase_name (returned_phases (make_pipeline_inversion inversion_call runner_state))
       = [''phase_1_initialize_inversion'',
          ''phase_2_lens_sersic_sie_shear_source_inversion'']
   \<and> length (constructed (snd (make_pipeline_inversion inversion_call runner_state))) = 3"
  using inversion_pipeline_drops_third_phase [of runner_state inversion_call
      "\<lparr>pipeline_name = ''pipeline_inv__lens_sersic_sie_shear_source_inversion'',
        phases = [inversion_phase1 inversion_call (PyListRef 0),
                  inversion_phase2 inversion_call (PyListRef 0)]\<rparr>"]
  by (simp add: make_pipeline_inversion_def run_defs call_defs inversion_phase1_def
      inversion_phase2_def inversion_phase3_def)

subsection \<open>The folders\<close>



subsection \<open>The default folders\<close>



end
